theory Spec2Isabelle
  imports Main
begin

section \<open>Data model\<close>

text \<open>
  The relational store behind the backend, as the route handlers and the authentication
  middleware use it. Every table is a list of rows in row-retrieval order, so that
  \<open>findFirst\<close> and \<open>organizations[0]\<close> have a meaning. Timestamps are milliseconds.
\<close>

type_synonym time = int

record user =
  user_id :: string
  user_email :: string
  user_password :: string
  user_firstName :: string
  user_lastName :: string
  user_company :: "string option"
  user_role :: string
  user_isActive :: bool

record userSession =
  session_userId :: string
  session_token :: string
  session_expiresAt :: time

record organization =
  org_id :: string
  org_name :: string
  org_description :: "string option"
  org_industry :: "string option"

record organizationUser =
  ou_userId :: string
  ou_organizationId :: string
  ou_role :: string

record supplier =
  supplier_id :: string
  supplier_name :: string
  supplier_country :: string
  supplier_industry :: "string option"
  supplier_organizationId :: string
  supplier_createdAt :: time

record monitoringZone =
  zone_id :: string
  zone_organizationId :: string
  zone_createdAt :: time

record alert =
  alert_id :: string
  alert_userId :: string
  alert_organizationId :: string
  alert_isRead :: bool

record db =
  users :: "user list"
  userSessions :: "userSession list"
  organizations :: "organization list"
  organizationUsers :: "organizationUser list"
  suppliers :: "supplier list"
  monitoringZones :: "monitoringZone list"
  alerts :: "alert list"

text \<open>
  Errors as the handlers throw them: \<open>new CustomError(message, statusCode)\<close>, the
  plain \<open>new Error(message)\<close>, which carries no status code, and the
  \<open>JsonWebTokenError\<close> of \<open>jwt.verify\<close> where a handler lets it through.
\<close>

datatype error = CustomError string nat | PlainError string | JsonWebTokenError

text \<open>
  The claims a signed token carries: \<open>jwt.sign({ userId, email }, ...)\<close>. Every token
  signed with the process secret has both, so a verified payload without \<open>userId\<close> is not
  modelled.
\<close>

record jwtPayload =
  jwt_userId :: string
  jwt_email :: string

text \<open>
  The libraries the handlers call, taken as parameters: \<open>jwt.verify\<close> with the process
  secret (\<open>None\<close> when it throws a \<open>JsonWebTokenError\<close>, which covers a bad signature and
  an expired claim), \<open>jwt.sign\<close>, \<open>bcrypt.hash\<close> and \<open>bcrypt.compare\<close>, the validators
  \<open>isEmail\<close> and \<open>isUUID\<close>, the sanitizers \<open>normalizeEmail\<close> and \<open>trim\<close> (which strips the
  whitespace class of the validator library), the date arithmetic
  \<open>expiresAt.setDate(expiresAt.getDate() + 7)\<close> (seven local calendar days, not a fixed
  number of milliseconds), and the store's generator of primary keys.
\<close>

record env =
  jwt_verify :: "string \<Rightarrow> time \<Rightarrow> jwtPayload option"
  jwt_sign :: "jwtPayload \<Rightarrow> time \<Rightarrow> string"
  bcrypt_hash :: "string \<Rightarrow> string"
  bcrypt_compare :: "string \<Rightarrow> string \<Rightarrow> bool"
  isEmail :: "string \<Rightarrow> bool"
  normalizeEmail :: "string \<Rightarrow> string"
  trim :: "string \<Rightarrow> string"
  addSevenDays :: "time \<Rightarrow> time"
  isUUID :: "string \<Rightarrow> bool"
  new_id :: "db \<Rightarrow> string"

section \<open>Authentication middleware\<close>

text \<open>The request context \<open>req.user\<close> of \<open>AuthRequest\<close>.\<close>

record authUser =
  au_id :: string
  au_email :: string
  au_role :: string
  au_organizationId :: "string option"

text \<open>\<open>String.prototype.split\<close> on a one-character separator.\<close>

fun split_on :: "char \<Rightarrow> string \<Rightarrow> string list" where
  "split_on c [] = [[]]"
| "split_on c (x # xs) =
     (if x = c then [] # split_on c xs
      else (case split_on c xs of
              [] \<Rightarrow> [[x]]
            | w # ws \<Rightarrow> (x # w) # ws))"

text \<open>
  \<open>const token = authHeader && authHeader.split(' ')[1]\<close> followed by \<open>if (!token)\<close>:
  an absent header, an empty header, a header with no second part and an empty second part
  are all falsy.
\<close>

definition extract_token :: "string option \<Rightarrow> string option" where
  "extract_token authHeader =
     (case authHeader of
        None \<Rightarrow> None
      | Some h \<Rightarrow>
          (if h = [] then None
           else (case split_on CHR '' '' h of
                   a # t # rest \<Rightarrow> (if t = [] then None else Some t)
                 | _ \<Rightarrow> None)))"

text \<open>\<open>prisma.user.findUnique({ where: { id } })\<close>.\<close>

definition findUserById :: "db \<Rightarrow> string \<Rightarrow> user option" where
  "findUserById d uid = find (\<lambda>u. user_id u = uid) (users d)"

text \<open>\<open>prisma.user.findUnique({ where: { email } })\<close>.\<close>

definition findUserByEmail :: "db \<Rightarrow> string \<Rightarrow> user option" where
  "findUserByEmail d e = find (\<lambda>u. user_email u = e) (users d)"

text \<open>The relation \<open>user.organizations\<close>: the membership rows of the user.\<close>

definition userOrganizations :: "db \<Rightarrow> string \<Rightarrow> organizationUser list" where
  "userOrganizations d uid = filter (\<lambda>m. ou_userId m = uid) (organizationUsers d)"

text \<open>
  \<open>prisma.userSession.findFirst({ where: { userId, token, expiresAt: { gt: new Date() } } })\<close>.
\<close>

definition findLiveSession :: "db \<Rightarrow> string \<Rightarrow> string \<Rightarrow> time \<Rightarrow> userSession option" where
  "findLiveSession d uid t now =
     find (\<lambda>s. session_userId s = uid \<and> session_token s = t \<and> now < session_expiresAt s)
       (userSessions d)"

text \<open>\<open>user.organizations[0]?.organizationId\<close>.\<close>

definition firstOrganizationId :: "organizationUser list \<Rightarrow> string option" where
  "firstOrganizationId ms = (case ms of [] \<Rightarrow> None | m # rest \<Rightarrow> Some (ou_organizationId m))"

text \<open>
  \<open>authenticateToken\<close>: \<open>Inr\<close> is the context attached before \<open>next()\<close>, \<open>Inl\<close> the error
  handed to \<open>next(error)\<close>.
\<close>

definition authenticateToken ::
  "env \<Rightarrow> db \<Rightarrow> time \<Rightarrow> string option \<Rightarrow> error + authUser" where
  "authenticateToken E d now authHeader =
     (case extract_token authHeader of
        None \<Rightarrow> Inl (CustomError ''Access token required'' 401)
      | Some token \<Rightarrow>
          (case jwt_verify E token now of
             None \<Rightarrow> Inl (CustomError ''Invalid token'' 401)
           | Some decoded \<Rightarrow>
               (case findUserById d (jwt_userId decoded) of
                  None \<Rightarrow> Inl (CustomError ''User not found or inactive'' 401)
                | Some u \<Rightarrow>
                    (if \<not> user_isActive u
                     then Inl (CustomError ''User not found or inactive'' 401)
                     else (case findLiveSession d (user_id u) token now of
                             None \<Rightarrow> Inl (CustomError ''Session expired'' 401)
                           | Some s \<Rightarrow>
                               Inr \<lparr> au_id = user_id u, au_email = user_email u,
                                     au_role = user_role u,
                                     au_organizationId =
                                       firstOrganizationId (userOrganizations d (user_id u)) \<rparr>)))))"

text \<open>
  \<open>optionalAuth\<close>: it always calls \<open>next()\<close> without an error; the result is the context
  it attached, if any.
\<close>

definition optionalAuth :: "env \<Rightarrow> db \<Rightarrow> time \<Rightarrow> string option \<Rightarrow> authUser option" where
  "optionalAuth E d now authHeader =
     (case extract_token authHeader of
        None \<Rightarrow> None
      | Some token \<Rightarrow>
          (case jwt_verify E token now of
             None \<Rightarrow> None
           | Some decoded \<Rightarrow>
               (case findUserById d (jwt_userId decoded) of
                  None \<Rightarrow> None
                | Some u \<Rightarrow>
                    (if user_isActive u
                     then Some \<lparr> au_id = user_id u, au_email = user_email u,
                                 au_role = user_role u, au_organizationId = None \<rparr>
                     else None))))"

section \<open>Credential routes (routes/auth.ts)\<close>

text \<open>
  Modelled from the spec: the column defaults of the Prisma schema, which is not among the
  sources. A user is active from registration on ("deactivated rather than deleted").
\<close>

definition default_isActive :: bool where
  "default_isActive = True"

record registerBody =
  rb_email :: string
  rb_password :: string
  rb_firstName :: string
  rb_lastName :: string
  rb_company :: "string option"

text \<open>The \<open>select\<close> of a user that the credential routes answer with (no password).\<close>

record publicUser =
  pu_id :: string
  pu_email :: string
  pu_firstName :: string
  pu_lastName :: string
  pu_role :: string
  pu_company :: "string option"

definition publicOf :: "user \<Rightarrow> publicUser" where
  "publicOf u = \<lparr> pu_id = user_id u, pu_email = user_email u,
                   pu_firstName = user_firstName u, pu_lastName = user_lastName u,
                   pu_role = user_role u, pu_company = user_company u \<rparr>"

record authResponse =
  ar_user :: publicUser
  ar_organizations :: "organizationUser list"
  ar_token :: string
  ar_expiresAt :: time

text \<open>\<open>registerValidation\<close>: the result of \<open>validationResult(req).isEmpty()\<close>.\<close>

definition registerValid :: "env \<Rightarrow> registerBody \<Rightarrow> bool" where
  "registerValid E b =
     (isEmail E (rb_email b) \<and> 8 \<le> length (rb_password b)
      \<and> 1 \<le> length (trim E (rb_firstName b)) \<and> 1 \<le> length (trim E (rb_lastName b)))"

text \<open>
  \<open>POST /register\<close>, after the rate limiter. The handler returns its answer and the store
  it leaves behind.
\<close>

definition register :: "env \<Rightarrow> db \<Rightarrow> time \<Rightarrow> registerBody \<Rightarrow> (error + authResponse) \<times> db" where
  "register E d now b =
     (if \<not> registerValid E b then (Inl (CustomError ''Validation failed'' 400), d)
      else
        (let email = normalizeEmail E (rb_email b) in
         case findUserByEmail d email of
           Some existingUser \<Rightarrow>
             (Inl (CustomError ''User already exists with this email'' 409), d)
         | None \<Rightarrow>
             (let u = \<lparr> user_id = new_id E d, user_email = email,
                         user_password = bcrypt_hash E (rb_password b),
                         user_firstName = trim E (rb_firstName b),
                         user_lastName = trim E (rb_lastName b),
                         user_company = map_option (trim E) (rb_company b),
                         user_role = ''USER'', user_isActive = default_isActive \<rparr>;
                  d1 = d\<lparr> users := users d @ [u] \<rparr>;
                  token = jwt_sign E \<lparr> jwt_userId = user_id u, jwt_email = user_email u \<rparr> now;
                  expiresAt = addSevenDays E now;
                  d2 = d1\<lparr> userSessions := userSessions d1 @
                         [\<lparr> session_userId = user_id u, session_token = token,
                            session_expiresAt = expiresAt \<rparr>] \<rparr>
              in (Inr \<lparr> ar_user = publicOf u, ar_organizations = [],
                        ar_token = token, ar_expiresAt = expiresAt \<rparr>, d2))))"

record loginBody =
  lb_email :: string
  lb_password :: string

text \<open>\<open>loginValidation\<close>.\<close>

definition loginValid :: "env \<Rightarrow> loginBody \<Rightarrow> bool" where
  "loginValid E b = (isEmail E (lb_email b) \<and> lb_password b \<noteq> [])"

text \<open>\<open>POST /login\<close>, after the rate limiter.\<close>

definition login :: "env \<Rightarrow> db \<Rightarrow> time \<Rightarrow> loginBody \<Rightarrow> (error + authResponse) \<times> db" where
  "login E d now b =
     (if \<not> loginValid E b then (Inl (CustomError ''Validation failed'' 400), d)
      else
        (case findUserByEmail d (normalizeEmail E (lb_email b)) of
           None \<Rightarrow> (Inl (CustomError ''Invalid credentials'' 401), d)
         | Some u \<Rightarrow>
             (if \<not> user_isActive u then (Inl (CustomError ''Invalid credentials'' 401), d)
              else if \<not> bcrypt_compare E (lb_password b) (user_password u)
              then (Inl (CustomError ''Invalid credentials'' 401), d)
              else
                (let token = jwt_sign E \<lparr> jwt_userId = user_id u, jwt_email = user_email u \<rparr> now;
                     expiresAt = addSevenDays E now;
                     d1 = d\<lparr> userSessions := userSessions d @
                            [\<lparr> session_userId = user_id u, session_token = token,
                               session_expiresAt = expiresAt \<rparr>] \<rparr>
                 in (Inr \<lparr> ar_user = publicOf u,
                           ar_organizations = userOrganizations d (user_id u),
                           ar_token = token, ar_expiresAt = expiresAt \<rparr>, d1)))))"

text \<open>
  \<open>POST /logout\<close>: \<open>deleteMany({ where: { token } })\<close> when the header carries a token;
  the answer is always \<open>Logout successful\<close>.
\<close>

definition logout :: "db \<Rightarrow> string option \<Rightarrow> db" where
  "logout d authHeader =
     (case extract_token authHeader of
        None \<Rightarrow> d
      | Some token \<Rightarrow> d\<lparr> userSessions := filter (\<lambda>s. session_token s \<noteq> token) (userSessions d) \<rparr>)"

record meResponse =
  me_user :: publicUser
  me_isActive :: bool
  me_organizations :: "organizationUser list"

text \<open>
  \<open>GET /me\<close>: the route does not mount \<open>authenticateToken\<close>. It takes the token from the
  header itself, calls \<open>jwt.verify\<close> (whose error it does not catch) and looks the user
  up; it makes no query on the session table.
\<close>

definition getMe :: "env \<Rightarrow> db \<Rightarrow> time \<Rightarrow> string option \<Rightarrow> error + meResponse" where
  "getMe E d now authHeader =
     (case extract_token authHeader of
        None \<Rightarrow> Inl (CustomError ''Authentication required'' 401)
      | Some token \<Rightarrow>
          (case jwt_verify E token now of
             None \<Rightarrow> Inl JsonWebTokenError
           | Some decoded \<Rightarrow>
               (case findUserById d (jwt_userId decoded) of
                  None \<Rightarrow> Inl (CustomError ''User not found'' 404)
                | Some u \<Rightarrow>
                    (if \<not> user_isActive u then Inl (CustomError ''User not found'' 404)
                     else Inr \<lparr> me_user = publicOf u, me_isActive = user_isActive u,
                                me_organizations = userOrganizations d (user_id u) \<rparr>))))"

section \<open>Organization routes (routes/organizations.ts)\<close>

text \<open>
  \<open>prisma.organizationUser.findUnique({ where: { userId_organizationId: { ... } } })\<close>.
\<close>

definition findOrgUser :: "db \<Rightarrow> string \<Rightarrow> string \<Rightarrow> organizationUser option" where
  "findOrgUser d uid oid =
     find (\<lambda>m. ou_userId m = uid \<and> ou_organizationId m = oid) (organizationUsers d)"

definition findOrganization :: "db \<Rightarrow> string \<Rightarrow> organization option" where
  "findOrganization d oid = find (\<lambda>g. org_id g = oid) (organizations d)"

record organizationDetails =
  od_organization :: organization
  od_userRole :: string
  od_users :: nat
  od_suppliers :: nat
  od_monitoringZones :: nat

text \<open>
  \<open>GET /:organizationId\<close>, for the authenticated user \<open>uid\<close>. The membership row comes
  with its organization; a membership row whose organization is gone is ruled out by the
  foreign key, and the handler would fail on \<open>orgUser.organization._count\<close> with a
  \<open>TypeError\<close>.
\<close>

definition getOrganization :: "db \<Rightarrow> string \<Rightarrow> string \<Rightarrow> error + organizationDetails" where
  "getOrganization d uid organizationId =
     (case findOrgUser d uid organizationId of
        None \<Rightarrow> Inl (CustomError ''Organization not found or access denied'' 404)
      | Some orgUser \<Rightarrow>
          (case findOrganization d (ou_organizationId orgUser) of
             None \<Rightarrow> Inl (PlainError ''TypeError'')
           | Some g \<Rightarrow>
               Inr \<lparr> od_organization = g, od_userRole = ou_role orgUser,
                     od_users = length (filter (\<lambda>m. ou_organizationId m = org_id g)
                                          (organizationUsers d)),
                     od_suppliers = length (filter (\<lambda>s. supplier_organizationId s = org_id g)
                                              (suppliers d)),
                     od_monitoringZones =
                       length (filter (\<lambda>z. zone_organizationId z = org_id g)
                                 (monitoringZones d)) \<rparr>))"

record organizationMember =
  om_user :: "publicUser option"
  om_role :: string

text \<open>\<open>GET /:organizationId/users\<close>.\<close>

definition getOrganizationUsers ::
  "db \<Rightarrow> string \<Rightarrow> string \<Rightarrow> error + organizationMember list" where
  "getOrganizationUsers d uid organizationId =
     (case findOrgUser d uid organizationId of
        None \<Rightarrow> Inl (CustomError ''Organization not found or access denied'' 404)
      | Some orgUser \<Rightarrow>
          Inr (map (\<lambda>m. \<lparr> om_user = map_option publicOf (findUserById d (ou_userId m)),
                           om_role = ou_role m \<rparr>)
                 (filter (\<lambda>m. ou_organizationId m = organizationId) (organizationUsers d))))"

record updateOrganizationBody =
  uo_name :: "string option"
  uo_description :: "string option"
  uo_industry :: "string option"

text \<open>
  \<open>PUT /:organizationId\<close>. The validation chain trims the three fields and wants a
  present name to be non-empty; the spread \<open>...(name && { name })\<close> writes a truthy name
  only, the other two are written whenever they are present.
\<close>

definition updateOrganization ::
  "env \<Rightarrow> db \<Rightarrow> string \<Rightarrow> string \<Rightarrow> updateOrganizationBody
     \<Rightarrow> (error + organization) \<times> db" where
  "updateOrganization E d uid organizationId b =
     (if \<not> (case uo_name b of None \<Rightarrow> True | Some n \<Rightarrow> 1 \<le> length (trim E n))
      then (Inl (CustomError ''Validation failed'' 400), d)
      else
        (case findOrgUser d uid organizationId of
           None \<Rightarrow> (Inl (CustomError ''Insufficient permissions'' 403), d)
         | Some orgUser \<Rightarrow>
             (if ou_role orgUser \<notin> set [''OWNER'', ''ADMIN'']
              then (Inl (CustomError ''Insufficient permissions'' 403), d)
              else
                (case findOrganization d organizationId of
                   None \<Rightarrow> (Inl (PlainError ''Record to update not found''), d)
                 | Some g \<Rightarrow>
                     (let g1 = (case uo_name b of
                                  None \<Rightarrow> g
                                | Some n \<Rightarrow> (if trim E n = [] then g else g\<lparr> org_name := trim E n \<rparr>));
                          g2 = (case uo_description b of
                                  None \<Rightarrow> g1
                                | Some x \<Rightarrow> g1\<lparr> org_description := Some (trim E x) \<rparr>);
                          g3 = (case uo_industry b of
                                  None \<Rightarrow> g2
                                | Some x \<Rightarrow> g2\<lparr> org_industry := Some (trim E x) \<rparr>)
                      in (Inr g3,
                          d\<lparr> organizations :=
                               map (\<lambda>h. if org_id h = organizationId then g3 else h)
                                 (organizations d) \<rparr>))))))"

record addUserBody =
  aub_email :: string
  aub_role :: string

text \<open>\<open>POST /:organizationId/users\<close>.\<close>

definition addOrganizationUser ::
  "env \<Rightarrow> db \<Rightarrow> string \<Rightarrow> string \<Rightarrow> addUserBody \<Rightarrow> (error + organizationUser) \<times> db" where
  "addOrganizationUser E d uid organizationId b =
     (if \<not> (isEmail E (aub_email b) \<and> aub_role b \<in> set [''MEMBER'', ''VIEWER''])
      then (Inl (CustomError ''Validation failed'' 400), d)
      else
        (case findOrgUser d uid organizationId of
           None \<Rightarrow> (Inl (CustomError ''Insufficient permissions'' 403), d)
         | Some orgUser \<Rightarrow>
             (if ou_role orgUser \<notin> set [''OWNER'', ''ADMIN'']
              then (Inl (CustomError ''Insufficient permissions'' 403), d)
              else
                (case findUserByEmail d (normalizeEmail E (aub_email b)) of
                   None \<Rightarrow> (Inl (CustomError ''User not found'' 404), d)
                 | Some u \<Rightarrow>
                     (case findOrgUser d (user_id u) organizationId of
                        Some existingOrgUser \<Rightarrow>
                          (Inl (CustomError ''User already in organization'' 409), d)
                      | None \<Rightarrow>
                          (let newOrgUser = \<lparr> ou_userId = user_id u,
                                               ou_organizationId = organizationId,
                                               ou_role = aub_role b \<rparr>
                           in (Inr newOrgUser,
                               d\<lparr> organizationUsers :=
                                    organizationUsers d @ [newOrgUser] \<rparr>)))))))"

section \<open>Supplier routes\<close>

record createSupplierBody =
  cs_name :: string
  cs_country :: string
  cs_industry :: "string option"
  cs_organizationId :: string

text \<open>
  \<open>POST /suppliers\<close>, for an authenticated user: the handler does not read \<open>req.user\<close>.
  The optional \<open>coordinates\<close> object is left out of the row. The store refuses a row whose
  organization does not exist (the relation \<open>Organization.suppliers\<close>).
\<close>

definition createSupplier ::
  "env \<Rightarrow> db \<Rightarrow> time \<Rightarrow> authUser \<Rightarrow> createSupplierBody \<Rightarrow> (error + supplier) \<times> db" where
  "createSupplier E d now reqUser b =
     (if \<not> (1 \<le> length (trim E (cs_name b)) \<and> 1 \<le> length (trim E (cs_country b))
             \<and> isUUID E (cs_organizationId b))
      then (Inl (CustomError ''Validation failed'' 400), d)
      else
        (case findOrganization d (cs_organizationId b) of
           None \<Rightarrow> (Inl (PlainError ''Foreign key constraint failed''), d)
         | Some g \<Rightarrow>
             (let s = \<lparr> supplier_id = new_id E d, supplier_name = trim E (cs_name b),
                         supplier_country = trim E (cs_country b),
                         supplier_industry = map_option (trim E) (cs_industry b),
                         supplier_organizationId = cs_organizationId b,
                         supplier_createdAt = now \<rparr>
              in (Inr s, d\<lparr> suppliers := suppliers d @ [s] \<rparr>))))"

record suppliersQuery =
  sq_organizationId :: "string option"
  sq_page :: "nat option"
  sq_limit :: "nat option"

record pagination =
  pg_page :: nat
  pg_limit :: nat
  pg_total :: nat
  pg_pages :: "nat option"

record suppliersPage =
  sp_suppliers :: "supplier list"
  sp_pagination :: pagination

text \<open>
  \<open>prisma.organizationUser.findFirst({ where: { userId } })\<close>. The query has no
  \<open>orderBy\<close>: the store promises no order, and the row it returns for a user with several
  memberships need not be the \<open>user.organizations[0]\<close> of the middleware. Here both read
  the one table order; no property below rests on their agreement.
\<close>

definition findFirstOrgUser :: "db \<Rightarrow> string \<Rightarrow> organizationUser option" where
  "findFirstOrgUser d uid = find (\<lambda>m. ou_userId m = uid) (organizationUsers d)"

text \<open>
  \<open>GET /suppliers\<close>. \<open>page\<close> and \<open>limit\<close> are the numbers the query strings denote
  (defaults 1 and 10); \<open>organizationId || userOrg.organizationId\<close> takes the query's id
  unless it is absent or empty. A negative \<open>skip\<close> (page 0) is refused by the store;
  \<open>Math.ceil(total / 0)\<close> is not a number and is \<open>None\<close>. Rows come newest first. The
  relation counts added to each row are left out.
\<close>

definition getSuppliers :: "db \<Rightarrow> authUser \<Rightarrow> suppliersQuery \<Rightarrow> error + suppliersPage" where
  "getSuppliers d reqUser q =
     (let page = (case sq_page q of None \<Rightarrow> 1 | Some p \<Rightarrow> p);
          limit = (case sq_limit q of None \<Rightarrow> 10 | Some l \<Rightarrow> l)
      in case findFirstOrgUser d (au_id reqUser) of
           None \<Rightarrow>
             Inr \<lparr> sp_suppliers = [],
                   sp_pagination = \<lparr> pg_page = 1, pg_limit = 10, pg_total = 0,
                                     pg_pages = Some 0 \<rparr> \<rparr>
         | Some userOrg \<Rightarrow>
             (if page = 0 \<and> 0 < limit then Inl (PlainError ''Invalid value for skip'')
              else
                (let skip = (page - 1) * limit;
                     whereOrg = (case sq_organizationId q of
                                   None \<Rightarrow> ou_organizationId userOrg
                                 | Some oid \<Rightarrow>
                                     (if oid = [] then ou_organizationId userOrg else oid));
                     matching = filter (\<lambda>s. supplier_organizationId s = whereOrg) (suppliers d);
                     ordered = rev (sort_key supplier_createdAt matching);
                     total = length matching
                 in Inr \<lparr> sp_suppliers = take limit (drop skip ordered),
                          sp_pagination =
                            \<lparr> pg_page = page, pg_limit = limit, pg_total = total,
                              pg_pages = (if limit = 0 then None
                                          else Some ((total + limit - 1) div limit)) \<rparr> \<rparr>)))"

section \<open>Monitoring and alert routes\<close>

text \<open>\<open>GET /monitoring/zones\<close>: the organization comes from the membership alone.\<close>

definition getZones :: "db \<Rightarrow> authUser \<Rightarrow> monitoringZone list" where
  "getZones d reqUser =
     (case findFirstOrgUser d (au_id reqUser) of
        None \<Rightarrow> []
      | Some userOrg \<Rightarrow>
          rev (sort_key zone_createdAt
                 (filter (\<lambda>z. zone_organizationId z = ou_organizationId userOrg)
                    (monitoringZones d))))"

text \<open>
  \<open>PATCH /alerts/:alertId/read\<close>: \<open>updateMany\<close> sets the flag on every row of that id
  and user and counts the rows it matched, whatever their flag was.
\<close>

definition markAlertRead :: "db \<Rightarrow> authUser \<Rightarrow> string \<Rightarrow> (error + string) \<times> db" where
  "markAlertRead d reqUser alertId =
     (let hit = (\<lambda>a. alert_id a = alertId \<and> alert_userId a = au_id reqUser);
          count = length (filter hit (alerts d));
          d1 = d\<lparr> alerts := map (\<lambda>a. if hit a then a\<lparr> alert_isRead := True \<rparr> else a)
                                (alerts d) \<rparr>
      in if count = 0 then (Inl (PlainError ''Alert not found''), d1)
         else (Inr ''Alert marked as read'', d1))"

text \<open>
  A protected route: the middleware first, then the handler with the context it attached.
\<close>

definition protected ::
  "env \<Rightarrow> db \<Rightarrow> time \<Rightarrow> string option \<Rightarrow> (authUser \<Rightarrow> error + 'a) \<Rightarrow> error + 'a" where
  "protected E d now authHeader handler =
     (case authenticateToken E d now authHeader of
        Inl e \<Rightarrow> Inl e
      | Inr reqUser \<Rightarrow> handler reqUser)"

section \<open>The validation order of the specification\<close>

text \<open>The check at which a request is turned away.\<close>

datatype stage = TokenStage | SignatureStage | SessionStage | UserStage

text \<open>The stage each error of \<open>authenticateToken\<close> stands for.\<close>

definition rejectedAt :: "error \<Rightarrow> stage option" where
  "rejectedAt e =
     (if e = CustomError ''Access token required'' 401 then Some TokenStage
      else if e = CustomError ''Invalid token'' 401 then Some SignatureStage
      else if e = CustomError ''Session expired'' 401 then Some SessionStage
      else if e = CustomError ''User not found or inactive'' 401 then Some UserStage
      else None)"

text \<open>
  The validator in the words of the specification, for comparison with the code:
  token, signature, then the session row by token value with \<open>expiresAt > now\<close>, then the
  user by id with \<open>isActive\<close>, then the first membership.
\<close>

definition sessionValidator_spec ::
  "env \<Rightarrow> db \<Rightarrow> time \<Rightarrow> string option \<Rightarrow> stage + authUser" where
  "sessionValidator_spec E d now authHeader =
     (case extract_token authHeader of
        None \<Rightarrow> Inl TokenStage
      | Some token \<Rightarrow>
          (case jwt_verify E token now of
             None \<Rightarrow> Inl SignatureStage
           | Some decoded \<Rightarrow>
               (case find (\<lambda>s. session_token s = token) (userSessions d) of
                  None \<Rightarrow> Inl SessionStage
                | Some s \<Rightarrow>
                    (if \<not> now < session_expiresAt s then Inl SessionStage
                     else (case findUserById d (jwt_userId decoded) of
                             None \<Rightarrow> Inl UserStage
                           | Some u \<Rightarrow>
                               (if \<not> user_isActive u then Inl UserStage
                                else Inr \<lparr> au_id = user_id u, au_email = user_email u,
                                           au_role = user_role u,
                                           au_organizationId =
                                             firstOrganizationId
                                               (userOrganizations d (user_id u)) \<rparr>))))))"

section \<open>A sample store\<close>

text \<open>
  Two organizations and five users: \<open>a\<close> owns the first organization, \<open>v\<close> is a viewer of
  it, \<open>b\<close> is a member of the second only, \<open>i\<close> is deactivated and has no session, and
  \<open>n\<close> has a session and no membership.
  The first organization has one supplier; \<open>b\<close> has one unread alert.
\<close>

definition orgOne :: string where
  "orgOne = ''11111111-1111-4111-8111-111111111111''"

definition orgTwo :: string where
  "orgTwo = ''22222222-2222-4222-8222-222222222222''"

text \<open>The sample \<open>trim\<close> strips ASCII whitespace.\<close>

definition is_ws :: "char \<Rightarrow> bool" where
  "is_ws c = (c = CHR '' '' \<or> c = CHR 0x09 \<or> c = CHR 0x0A \<or> c = CHR 0x0B
              \<or> c = CHR 0x0C \<or> c = CHR 0x0D)"

definition ascii_trim :: "string \<Rightarrow> string" where
  "ascii_trim s = rev (dropWhile is_ws (rev (dropWhile is_ws s)))"

definition demo_env :: env where
  "demo_env = \<lparr>
     jwt_verify = (\<lambda>t now.
        if t = ''tok-a'' then Some \<lparr> jwt_userId = ''a'', jwt_email = ''a@example.com'' \<rparr>
        else if t = ''tok-b'' then Some \<lparr> jwt_userId = ''b'', jwt_email = ''b@example.com'' \<rparr>
        else if t = ''tok-v'' then Some \<lparr> jwt_userId = ''v'', jwt_email = ''v@example.com'' \<rparr>
        else if t = ''tok-i'' then Some \<lparr> jwt_userId = ''i'', jwt_email = ''i@example.com'' \<rparr>
        else if t = ''tok-n'' then Some \<lparr> jwt_userId = ''n'', jwt_email = ''n@example.com'' \<rparr>
        else None),
     jwt_sign = (\<lambda>p now. ''tok-'' @ jwt_userId p),
     bcrypt_hash = (\<lambda>p. ''$2a$12$'' @ p),
     bcrypt_compare = (\<lambda>p h. h = ''$2a$12$'' @ p),
     isEmail = (\<lambda>s. CHR ''@'' \<in> set s),
     normalizeEmail = (\<lambda>s. s),
     trim = ascii_trim,
     addSevenDays = (\<lambda>t. t + 7 * 24 * 60 * 60 * 1000),
     isUUID = (\<lambda>s. length s = 36),
     new_id = (\<lambda>d. ''row-'' @ replicate (length (users d) + length (suppliers d)) CHR ''x'') \<rparr>"

definition mkUser :: "string \<Rightarrow> string \<Rightarrow> bool \<Rightarrow> user" where
  "mkUser i e act = \<lparr> user_id = i, user_email = e, user_password = ''$2a$12$password123'',
      user_firstName = ''F'', user_lastName = ''L'', user_company = None,
      user_role = ''USER'', user_isActive = act \<rparr>"

definition demo_db :: db where
  "demo_db = \<lparr>
     users = [mkUser ''a'' ''a@example.com'' True, mkUser ''b'' ''b@example.com'' True,
              mkUser ''v'' ''v@example.com'' True, mkUser ''i'' ''i@example.com'' False,
              mkUser ''n'' ''n@example.com'' True],
     userSessions =
       [\<lparr> session_userId = ''a'', session_token = ''tok-a'', session_expiresAt = 5000 \<rparr>,
        \<lparr> session_userId = ''b'', session_token = ''tok-b'', session_expiresAt = 5000 \<rparr>,
        \<lparr> session_userId = ''v'', session_token = ''tok-v'', session_expiresAt = 5000 \<rparr>,
        \<lparr> session_userId = ''n'', session_token = ''tok-n'', session_expiresAt = 5000 \<rparr>],
     organizations =
       [\<lparr> org_id = orgOne, org_name = ''One'', org_description = None, org_industry = None \<rparr>,
        \<lparr> org_id = orgTwo, org_name = ''Two'', org_description = None, org_industry = None \<rparr>],
     organizationUsers =
       [\<lparr> ou_userId = ''a'', ou_organizationId = orgOne, ou_role = ''OWNER'' \<rparr>,
        \<lparr> ou_userId = ''b'', ou_organizationId = orgTwo, ou_role = ''MEMBER'' \<rparr>,
        \<lparr> ou_userId = ''v'', ou_organizationId = orgOne, ou_role = ''VIEWER'' \<rparr>],
     suppliers =
       [\<lparr> supplier_id = ''s1'', supplier_name = ''Tropical Timber Co.'',
          supplier_country = ''Brazil'', supplier_industry = None,
          supplier_organizationId = orgOne, supplier_createdAt = 10 \<rparr>],
     monitoringZones = [],
     alerts =
       [\<lparr> alert_id = ''al1'', alert_userId = ''b'', alert_organizationId = orgTwo,
          alert_isRead = False \<rparr>] \<rparr>"

text \<open>The contexts the middleware attaches for \<open>b\<close> and for \<open>v\<close>.\<close>

definition ctxB :: authUser where
  "ctxB = \<lparr> au_id = ''b'', au_email = ''b@example.com'', au_role = ''USER'',
            au_organizationId = Some orgTwo \<rparr>"

definition ctxV :: authUser where
  "ctxV = \<lparr> au_id = ''v'', au_email = ''v@example.com'', au_role = ''USER'',
            au_organizationId = Some orgOne \<rparr>"

section \<open>Sessions are checked against the store\<close>

lemmas demo_defs = demo_env_def demo_db_def mkUser_def orgOne_def orgTwo_def ctxB_def ctxV_def

lemmas mw_defs = authenticateToken_def optionalAuth_def extract_token_def findUserById_def
  findLiveSession_def firstOrganizationId_def userOrganizations_def protected_def

lemma findLiveSession_None:
  "\<not> list_ex (\<lambda>s. session_token s = t \<and> now < session_expiresAt s) (userSessions d)
   \<Longrightarrow> findLiveSession d uid t now = None"
  by (auto simp: findLiveSession_def find_None_iff list_ex_iff)

lemma authenticateToken_no_session:
  assumes "extract_token hdr = Some t" and "jwt_verify E t now = Some p"
    and "\<not> list_ex (\<lambda>s. session_token s = t \<and> now < session_expiresAt s) (userSessions d)"
  shows "\<exists>m. authenticateToken E d now hdr = Inl (CustomError m 401)"
  using assms
  by (simp add: authenticateToken_def findLiveSession_None split: option.splits)

lemma logout_drops_token:
  "extract_token hdr' = Some t \<Longrightarrow>
   \<not> list_ex (\<lambda>s. session_token s = t \<and> now < session_expiresAt s)
       (userSessions (logout d hdr'))"
  by (simp add: logout_def list_ex_iff)

text \<open>
  The middleware makes the check: a request whose token is present and passes
  \<open>jwt.verify\<close> is answered with a 401 error whenever the store holds no session row of
  that token with \<open>expiresAt\<close> strictly after the current time; in particular on any store
  left by a logout that presented the token.
\<close>

lemma authenticateToken_requires_live_session:
  assumes "extract_token hdr = Some t" and "jwt_verify E t now = Some p"
  shows "(\<not> list_ex (\<lambda>s. session_token s = t \<and> now < session_expiresAt s) (userSessions d)
            \<longrightarrow> (\<exists>m. authenticateToken E d now hdr = Inl (CustomError m 401)))
       \<and> (\<forall>hdr'. extract_token hdr' = Some t
            \<longrightarrow> (\<exists>m. authenticateToken E (logout d hdr') now hdr = Inl (CustomError m 401)))"
  using assms authenticateToken_no_session logout_drops_token by blast

lemma authenticateToken_requires_live_session_sample:
  "extract_token (Some ''Bearer tok-b'') = Some ''tok-b''
   \<and> jwt_verify demo_env ''tok-b'' 5000
       = Some \<lparr> jwt_userId = ''b'', jwt_email = ''b@example.com'' \<rparr>
   \<and> \<not> list_ex (\<lambda>s. session_token s = ''tok-b'' \<and> 5000 < session_expiresAt s)
         (userSessions demo_db)
   \<and> (\<exists>m. authenticateToken demo_env demo_db 5000 (Some ''Bearer tok-b'')
          = Inl (CustomError m 401))
   \<and> (\<exists>m. authenticateToken demo_env (logout demo_db (Some ''Bearer tok-b'')) 1000
            (Some ''Bearer tok-b'')
          = Inl (CustomError m 401))"
proof -
  have tok: "extract_token (Some ''Bearer tok-b'') = Some ''tok-b''"
    by (simp add: extract_token_def)
  have sig: "jwt_verify demo_env ''tok-b'' now
               = Some \<lparr> jwt_userId = ''b'', jwt_email = ''b@example.com'' \<rparr>" for now
    by (simp add: demo_env_def)
  have dead: "\<not> list_ex (\<lambda>s. session_token s = ''tok-b'' \<and> 5000 < session_expiresAt s)
                   (userSessions demo_db)"
    by (simp add: demo_db_def)
  from authenticateToken_requires_live_session [OF tok sig, of 5000 demo_db] dead
  have a: "\<exists>m. authenticateToken demo_env demo_db 5000 (Some ''Bearer tok-b'')
                = Inl (CustomError m 401)"
    by blast
  from authenticateToken_requires_live_session [OF tok sig, of 1000 demo_db] tok
  have b: "\<exists>m. authenticateToken demo_env (logout demo_db (Some ''Bearer tok-b'')) 1000
                  (Some ''Bearer tok-b'')
                = Inl (CustomError m 401)"
    by blast
  from tok sig dead a b show ?thesis by blast
qed

text \<open>
  C2. Every protected request with a token that still verifies is to be answered with 401
  once the session row is gone. \<open>GET /me\<close> does not keep to it: after \<open>b\<close> has logged
  out, no session row of the token is left and \<open>authenticateToken\<close> answers 401, and yet
  \<open>GET /me\<close> with the same token answers with the profile of \<open>b\<close>.
\<close>

theorem getMe_accepts_logged_out_token:
  "extract_token (Some ''Bearer tok-b'') = Some ''tok-b''
   \<and> jwt_verify demo_env ''tok-b'' 1000
       = Some \<lparr> jwt_userId = ''b'', jwt_email = ''b@example.com'' \<rparr>
   \<and> \<not> list_ex (\<lambda>s. session_token s = ''tok-b'')
         (userSessions (logout demo_db (Some ''Bearer tok-b'')))
   \<and> authenticateToken demo_env (logout demo_db (Some ''Bearer tok-b'')) 1000
         (Some ''Bearer tok-b'')
       = Inl (CustomError ''Session expired'' 401)
   \<and> getMe demo_env (logout demo_db (Some ''Bearer tok-b'')) 1000 (Some ''Bearer tok-b'')
       = Inr \<lparr> me_user = \<lparr> pu_id = ''b'', pu_email = ''b@example.com'', pu_firstName = ''F'',
                             pu_lastName = ''L'', pu_role = ''USER'', pu_company = None \<rparr>,
               me_isActive = True,
               me_organizations =
                 [\<lparr> ou_userId = ''b'', ou_organizationId = orgTwo, ou_role = ''MEMBER'' \<rparr>] \<rparr>"
  by (simp add: mw_defs getMe_def publicOf_def logout_def demo_defs)

section \<open>What the validator accepts\<close>

lemma firstOrganizationId_find:
  "firstOrganizationId (filter P ms) = map_option ou_organizationId (find P ms)"
  by (induction ms) (auto simp: firstOrganizationId_def)

lemma findLiveSession_Some:
  "list_ex (\<lambda>s. session_userId s = uid \<and> session_token s = t \<and> now < session_expiresAt s)
     (userSessions d)
   \<Longrightarrow> \<exists>s. findLiveSession d uid t now = Some s"
  by (cases "findLiveSession d uid t now")
     (auto simp: findLiveSession_def find_None_iff list_ex_iff)

lemma findLiveSession_None_user:
  "\<not> list_ex (\<lambda>s. session_userId s = uid \<and> session_token s = t \<and> now < session_expiresAt s)
     (userSessions d)
   \<Longrightarrow> findLiveSession d uid t now = None"
  by (auto simp: findLiveSession_def find_None_iff list_ex_iff)

lemma authenticateToken_accepts:
  assumes "extract_token hdr = Some t" and "jwt_verify E t now = Some p"
    and "findUserById d (jwt_userId p) = Some u" and "user_isActive u"
    and "list_ex (\<lambda>s. session_userId s = user_id u \<and> session_token s = t
                       \<and> now < session_expiresAt s) (userSessions d)"
  shows "authenticateToken E d now hdr =
           Inr \<lparr> au_id = user_id u, au_email = user_email u, au_role = user_role u,
                 au_organizationId =
                   map_option ou_organizationId
                     (find (\<lambda>m. ou_userId m = user_id u) (organizationUsers d)) \<rparr>"
proof -
  from findLiveSession_Some [OF assms(5)]
  obtain s where "findLiveSession d (user_id u) t now = Some s" by blast
  with assms(1-4) show ?thesis
    by (simp add: authenticateToken_def userOrganizations_def firstOrganizationId_find)
qed

text \<open>
  C10. An active user with a live session and no membership row is accepted, and the
  context attached carries no organization id.
\<close>

theorem authenticateToken_without_membership:
  assumes "extract_token hdr = Some t" and "jwt_verify E t now = Some p"
    and "findUserById d (jwt_userId p) = Some u" and "user_isActive u"
    and "list_ex (\<lambda>s. session_userId s = user_id u \<and> session_token s = t
                       \<and> now < session_expiresAt s) (userSessions d)"
    and "\<not> list_ex (\<lambda>m. ou_userId m = user_id u) (organizationUsers d)"
  shows "authenticateToken E d now hdr =
           Inr \<lparr> au_id = user_id u, au_email = user_email u, au_role = user_role u,
                 au_organizationId = None \<rparr>"
proof -
  from assms(6) have "find (\<lambda>m. ou_userId m = user_id u) (organizationUsers d) = None"
    by (simp add: find_None_iff list_ex_iff)
  with authenticateToken_accepts [OF assms(1-5)] show ?thesis by simp
qed

theorem authenticateToken_without_membership_witness:
  "extract_token (Some ''Bearer tok-n'') = Some ''tok-n''
   \<and> jwt_verify demo_env ''tok-n'' 1000 = Some \<lparr> jwt_userId = ''n'', jwt_email = ''n@example.com'' \<rparr>
   \<and> findUserById demo_db ''n'' = Some (mkUser ''n'' ''n@example.com'' True)
   \<and> list_ex (\<lambda>s. session_userId s = ''n'' \<and> session_token s = ''tok-n''
                       \<and> 1000 < session_expiresAt s) (userSessions demo_db)
   \<and> \<not> list_ex (\<lambda>m. ou_userId m = ''n'') (organizationUsers demo_db)
   \<and> authenticateToken demo_env demo_db 1000 (Some ''Bearer tok-n'') =
           Inr \<lparr> au_id = ''n'', au_email = ''n@example.com'', au_role = ''USER'',
                 au_organizationId = None \<rparr>"
  using authenticateToken_without_membership [of "Some ''Bearer tok-n''" "''tok-n''" demo_env 1000
     "\<lparr> jwt_userId = ''n'', jwt_email = ''n@example.com'' \<rparr>" demo_db "mkUser ''n'' ''n@example.com'' True"]
  by (simp add: extract_token_def findUserById_def demo_defs)

section \<open>The order of the checks\<close>

text \<open>
  The token of the deactivated user \<open>i\<close> passes \<open>jwt.verify\<close> and has no session row. The
  code turns the request away at the user check; the order of the specification turns it
  away at the session check.
\<close>

theorem authenticateToken_order_counterexample:
  "authenticateToken demo_env demo_db 1000 (Some ''Bearer tok-i'')
     = Inl (CustomError ''User not found or inactive'' 401)
   \<and> rejectedAt (CustomError ''User not found or inactive'' 401) = Some UserStage
   \<and> sessionValidator_spec demo_env demo_db 1000 (Some ''Bearer tok-i'') = Inl SessionStage"
  by (simp add: authenticateToken_def sessionValidator_spec_def rejectedAt_def extract_token_def
        findUserById_def demo_defs)

lemma authenticateToken_no_token:
  "extract_token hdr = None
   \<Longrightarrow> authenticateToken E d now hdr = Inl (CustomError ''Access token required'' 401)"
  by (simp add: authenticateToken_def)

lemma authenticateToken_bad_signature:
  "extract_token hdr = Some t \<Longrightarrow> jwt_verify E t now = None
   \<Longrightarrow> authenticateToken E d now hdr = Inl (CustomError ''Invalid token'' 401)"
  by (simp add: authenticateToken_def)

lemma authenticateToken_no_active_user:
  "extract_token hdr = Some t \<Longrightarrow> jwt_verify E t now = Some p
   \<Longrightarrow> (\<forall>u. findUserById d (jwt_userId p) = Some u \<longrightarrow> \<not> user_isActive u)
   \<Longrightarrow> authenticateToken E d now hdr = Inl (CustomError ''User not found or inactive'' 401)"
  by (cases "findUserById d (jwt_userId p)") (simp_all add: authenticateToken_def)

lemma authenticateToken_dead_session:
  "extract_token hdr = Some t \<Longrightarrow> jwt_verify E t now = Some p
   \<Longrightarrow> findUserById d (jwt_userId p) = Some u \<Longrightarrow> user_isActive u
   \<Longrightarrow> \<not> list_ex (\<lambda>s. session_userId s = user_id u \<and> session_token s = t
                         \<and> now < session_expiresAt s) (userSessions d)
   \<Longrightarrow> authenticateToken E d now hdr = Inl (CustomError ''Session expired'' 401)"
  by (simp add: authenticateToken_def findLiveSession_None_user)

text \<open>
  C3, as the code has it. The checks run in this order: the token is extracted and the
  request fails if there is none; the signature is verified; the user is looked up by the
  id in the token and must be active, whatever the session table holds; only then the
  session row of that user and token with \<open>expiresAt > now\<close> is looked up; an accepted
  request carries the organization of the first membership row found for the user.
\<close>

theorem authenticateToken_check_order:
  "(extract_token hdr = None
      \<longrightarrow> authenticateToken E d now hdr = Inl (CustomError ''Access token required'' 401))
   \<and> (\<forall>t. extract_token hdr = Some t \<and> jwt_verify E t now = None
      \<longrightarrow> authenticateToken E d now hdr = Inl (CustomError ''Invalid token'' 401))
   \<and> (\<forall>t p. extract_token hdr = Some t \<and> jwt_verify E t now = Some p
          \<and> (\<forall>u. findUserById d (jwt_userId p) = Some u \<longrightarrow> \<not> user_isActive u)
      \<longrightarrow> authenticateToken E d now hdr
            = Inl (CustomError ''User not found or inactive'' 401))
   \<and> (\<forall>t p u. extract_token hdr = Some t \<and> jwt_verify E t now = Some p
          \<and> findUserById d (jwt_userId p) = Some u \<and> user_isActive u
          \<and> \<not> list_ex (\<lambda>s. session_userId s = user_id u \<and> session_token s = t
                              \<and> now < session_expiresAt s) (userSessions d)
      \<longrightarrow> authenticateToken E d now hdr = Inl (CustomError ''Session expired'' 401))
   \<and> (\<forall>t p u. extract_token hdr = Some t \<and> jwt_verify E t now = Some p
          \<and> findUserById d (jwt_userId p) = Some u \<and> user_isActive u
          \<and> list_ex (\<lambda>s. session_userId s = user_id u \<and> session_token s = t
                            \<and> now < session_expiresAt s) (userSessions d)
      \<longrightarrow> authenticateToken E d now hdr
            = Inr \<lparr> au_id = user_id u, au_email = user_email u, au_role = user_role u,
                    au_organizationId =
                      map_option ou_organizationId
                        (find (\<lambda>m. ou_userId m = user_id u) (organizationUsers d)) \<rparr>)"
proof (intro conjI allI impI)
  assume "extract_token hdr = None"
  then show "authenticateToken E d now hdr = Inl (CustomError ''Access token required'' 401)"
    by (rule authenticateToken_no_token)
next
  fix t assume "extract_token hdr = Some t \<and> jwt_verify E t now = None"
  then show "authenticateToken E d now hdr = Inl (CustomError ''Invalid token'' 401)"
    by (simp add: authenticateToken_bad_signature)
next
  fix t p
  assume "extract_token hdr = Some t \<and> jwt_verify E t now = Some p
          \<and> (\<forall>u. findUserById d (jwt_userId p) = Some u \<longrightarrow> \<not> user_isActive u)"
  then show "authenticateToken E d now hdr
            = Inl (CustomError ''User not found or inactive'' 401)"
    by (blast intro: authenticateToken_no_active_user)
next
  fix t p u
  assume "extract_token hdr = Some t \<and> jwt_verify E t now = Some p
          \<and> findUserById d (jwt_userId p) = Some u \<and> user_isActive u
          \<and> \<not> list_ex (\<lambda>s. session_userId s = user_id u \<and> session_token s = t
                              \<and> now < session_expiresAt s) (userSessions d)"
  then show "authenticateToken E d now hdr = Inl (CustomError ''Session expired'' 401)"
    by (simp add: authenticateToken_dead_session)
next
  fix t p u
  assume "extract_token hdr = Some t \<and> jwt_verify E t now = Some p
          \<and> findUserById d (jwt_userId p) = Some u \<and> user_isActive u
          \<and> list_ex (\<lambda>s. session_userId s = user_id u \<and> session_token s = t
                            \<and> now < session_expiresAt s) (userSessions d)"
  then show "authenticateToken E d now hdr
            = Inr \<lparr> au_id = user_id u, au_email = user_email u, au_role = user_role u,
                    au_organizationId =
                      map_option ou_organizationId
                        (find (\<lambda>m. ou_userId m = user_id u) (organizationUsers d)) \<rparr>"
    by (simp add: authenticateToken_accepts)
qed

theorem authenticateToken_check_order_witness:
  "authenticateToken demo_env demo_db 1000 None = Inl (CustomError ''Access token required'' 401)
   \<and> authenticateToken demo_env demo_db 1000 (Some ''Bearer forged'')
       = Inl (CustomError ''Invalid token'' 401)
   \<and> authenticateToken demo_env demo_db 1000 (Some ''Bearer tok-i'')
       = Inl (CustomError ''User not found or inactive'' 401)
   \<and> authenticateToken demo_env demo_db 5000 (Some ''Bearer tok-b'')
       = Inl (CustomError ''Session expired'' 401)
   \<and> authenticateToken demo_env demo_db 1000 (Some ''Bearer tok-b'') = Inr ctxB"
proof -
  have 1: "extract_token None = None"
    by (simp add: extract_token_def)
  have 2: "extract_token (Some ''Bearer forged'') = Some ''forged''
           \<and> jwt_verify demo_env ''forged'' 1000 = None"
    by (simp add: extract_token_def demo_defs)
  have 3: "extract_token (Some ''Bearer tok-i'') = Some ''tok-i''
           \<and> jwt_verify demo_env ''tok-i'' 1000
               = Some \<lparr> jwt_userId = ''i'', jwt_email = ''i@example.com'' \<rparr>
           \<and> (\<forall>u. findUserById demo_db (jwt_userId \<lparr> jwt_userId = ''i'', jwt_email = ''i@example.com'' \<rparr>) = Some u
                 \<longrightarrow> \<not> user_isActive u)"
    by (simp add: extract_token_def findUserById_def demo_defs)
  have 4: "extract_token (Some ''Bearer tok-b'') = Some ''tok-b''
           \<and> jwt_verify demo_env ''tok-b'' 5000
               = Some \<lparr> jwt_userId = ''b'', jwt_email = ''b@example.com'' \<rparr>
           \<and> findUserById demo_db (jwt_userId \<lparr> jwt_userId = ''b'', jwt_email = ''b@example.com'' \<rparr>)
               = Some (mkUser ''b'' ''b@example.com'' True)
           \<and> user_isActive (mkUser ''b'' ''b@example.com'' True)
           \<and> \<not> list_ex (\<lambda>s. session_userId s = user_id (mkUser ''b'' ''b@example.com'' True)
                               \<and> session_token s = ''tok-b'' \<and> 5000 < session_expiresAt s)
                  (userSessions demo_db)"
    by (simp add: extract_token_def findUserById_def demo_defs)
  have 5: "extract_token (Some ''Bearer tok-b'') = Some ''tok-b''
           \<and> jwt_verify demo_env ''tok-b'' 1000
               = Some \<lparr> jwt_userId = ''b'', jwt_email = ''b@example.com'' \<rparr>
           \<and> findUserById demo_db (jwt_userId \<lparr> jwt_userId = ''b'', jwt_email = ''b@example.com'' \<rparr>)
               = Some (mkUser ''b'' ''b@example.com'' True)
           \<and> user_isActive (mkUser ''b'' ''b@example.com'' True)
           \<and> list_ex (\<lambda>s. session_userId s = user_id (mkUser ''b'' ''b@example.com'' True)
                             \<and> session_token s = ''tok-b'' \<and> 1000 < session_expiresAt s)
                  (userSessions demo_db)"
    by (simp add: extract_token_def findUserById_def demo_defs)
  have a: "authenticateToken demo_env demo_db 1000 None
             = Inl (CustomError ''Access token required'' 401)"
    using authenticateToken_check_order [of None demo_env demo_db 1000] 1 by blast
  have b: "authenticateToken demo_env demo_db 1000 (Some ''Bearer forged'')
             = Inl (CustomError ''Invalid token'' 401)"
    using authenticateToken_check_order [of "Some ''Bearer forged''" demo_env demo_db 1000] 2
    by blast
  have c: "authenticateToken demo_env demo_db 1000 (Some ''Bearer tok-i'')
             = Inl (CustomError ''User not found or inactive'' 401)"
    using authenticateToken_check_order [of "Some ''Bearer tok-i''" demo_env demo_db 1000] 3
    by blast
  have d: "authenticateToken demo_env demo_db 5000 (Some ''Bearer tok-b'')
             = Inl (CustomError ''Session expired'' 401)"
    using authenticateToken_check_order [of "Some ''Bearer tok-b''" demo_env demo_db 5000] 4
    by blast
  have "authenticateToken demo_env demo_db 1000 (Some ''Bearer tok-b'')
          = Inr \<lparr> au_id = user_id (mkUser ''b'' ''b@example.com'' True),
                  au_email = user_email (mkUser ''b'' ''b@example.com'' True),
                  au_role = user_role (mkUser ''b'' ''b@example.com'' True),
                  au_organizationId =
                      map_option ou_organizationId
                        (find (\<lambda>m. ou_userId m = user_id (mkUser ''b'' ''b@example.com'' True))
                           (organizationUsers demo_db)) \<rparr>"
    using authenticateToken_check_order [of "Some ''Bearer tok-b''" demo_env demo_db 1000] 5
    by blast
  then have e: "authenticateToken demo_env demo_db 1000 (Some ''Bearer tok-b'') = Inr ctxB"
    by (simp add: demo_defs)
  from a b c d e show ?thesis by blast
qed

section \<open>The optional middleware\<close>

text \<open>
  After \<open>b\<close> has logged out, \<open>authenticateToken\<close> rejects the token and \<open>optionalAuth\<close>
  still attaches a context for it; before the logout both accept, and the two contexts
  differ in the organization id.
\<close>

theorem optionalAuth_counterexample:
  "authenticateToken demo_env (logout demo_db (Some ''Bearer tok-b'')) 1000 (Some ''Bearer tok-b'')
     = Inl (CustomError ''Session expired'' 401)
   \<and> optionalAuth demo_env (logout demo_db (Some ''Bearer tok-b'')) 1000 (Some ''Bearer tok-b'')
     = Some \<lparr> au_id = ''b'', au_email = ''b@example.com'', au_role = ''USER'',
              au_organizationId = None \<rparr>
   \<and> authenticateToken demo_env demo_db 1000 (Some ''Bearer tok-b'')
     = Inr \<lparr> au_id = ''b'', au_email = ''b@example.com'', au_role = ''USER'',
             au_organizationId = Some orgTwo \<rparr>
   \<and> optionalAuth demo_env demo_db 1000 (Some ''Bearer tok-b'')
     = Some \<lparr> au_id = ''b'', au_email = ''b@example.com'', au_role = ''USER'',
              au_organizationId = None \<rparr>"
  by (simp add: mw_defs logout_def demo_defs)

text \<open>
  C7, as the code has it. \<open>optionalAuth\<close> never rejects. Whenever \<open>authenticateToken\<close>
  accepts, \<open>optionalAuth\<close> attaches the same id, email and role, without an organization
  id; and it attaches a context only for a token that is present and verifies and whose
  user exists and is active.
\<close>

theorem optionalAuth_below_authenticateToken:
  "(\<forall>c. authenticateToken E d now hdr = Inr c
       \<longrightarrow> optionalAuth E d now hdr = Some (c\<lparr> au_organizationId := None \<rparr>))
   \<and> (\<forall>c. optionalAuth E d now hdr = Some c
       \<longrightarrow> (\<exists>t p u. extract_token hdr = Some t \<and> jwt_verify E t now = Some p
              \<and> findUserById d (jwt_userId p) = Some u \<and> user_isActive u
              \<and> c = \<lparr> au_id = user_id u, au_email = user_email u, au_role = user_role u,
                      au_organizationId = None \<rparr>))"
  by (auto simp: authenticateToken_def optionalAuth_def split: option.splits if_splits)

theorem optionalAuth_below_authenticateToken_witness:
  "authenticateToken demo_env demo_db 1000 (Some ''Bearer tok-b'') = Inr ctxB
   \<and> optionalAuth demo_env demo_db 1000 (Some ''Bearer tok-b'')
       = Some (ctxB\<lparr> au_organizationId := None \<rparr>)
   \<and> (\<exists>t p u. extract_token (Some ''Bearer tok-b'') = Some t \<and> jwt_verify demo_env t 1000 = Some p
              \<and> findUserById demo_db (jwt_userId p) = Some u \<and> user_isActive u
              \<and> ctxB\<lparr> au_organizationId := None \<rparr>
                  = \<lparr> au_id = user_id u, au_email = user_email u, au_role = user_role u,
                      au_organizationId = None \<rparr>)"
proof -
  have acc: "authenticateToken demo_env demo_db 1000 (Some ''Bearer tok-b'') = Inr ctxB"
    by (simp add: mw_defs demo_defs)
  note inst = optionalAuth_below_authenticateToken [of demo_env demo_db 1000 "Some ''Bearer tok-b''"]
  from inst acc
  have opt: "optionalAuth demo_env demo_db 1000 (Some ''Bearer tok-b'')
               = Some (ctxB\<lparr> au_organizationId := None \<rparr>)"
    by blast
  with inst acc show ?thesis by blast
qed

section \<open>Lookups across tenants\<close>

lemma findOrgUser_None:
  "\<not> list_ex (\<lambda>m. ou_userId m = uid \<and> ou_organizationId m = oid) (organizationUsers d)
   \<Longrightarrow> findOrgUser d uid oid = None"
  by (simp add: findOrgUser_def find_None_iff list_ex_iff)

text \<open>
  C4. For an authenticated user without a membership row in an organization, the two
  lookups by organization id, \<open>GET /:organizationId\<close> and \<open>GET /:organizationId/users\<close>,
  answer 404 with one fixed message; the answer does not depend on the organization
  table, so an organization that exists is not told apart from one that does not.
\<close>

theorem getOrganization_hides_foreign_organization:
  assumes "authenticateToken E d now hdr = Inr reqUser"
    and "\<not> list_ex (\<lambda>m. ou_userId m = au_id reqUser \<and> ou_organizationId m = oid)
            (organizationUsers d)"
  shows "protected E d now hdr (\<lambda>u. getOrganization d (au_id u) oid)
           = Inl (CustomError ''Organization not found or access denied'' 404)
       \<and> protected E d now hdr (\<lambda>u. getOrganizationUsers d (au_id u) oid)
           = Inl (CustomError ''Organization not found or access denied'' 404)
       \<and> getOrganization (d\<lparr> organizations := gs \<rparr>) (au_id reqUser) oid
           = getOrganization d (au_id reqUser) oid"
  using assms
  by (simp add: protected_def getOrganization_def getOrganizationUsers_def findOrgUser_None)

theorem getOrganization_hides_foreign_organization_witness:
  "authenticateToken demo_env demo_db 1000 (Some ''Bearer tok-b'') = Inr ctxB
   \<and> \<not> list_ex (\<lambda>m. ou_userId m = au_id ctxB \<and> ou_organizationId m = orgOne)
            (organizationUsers demo_db)
   \<and> findOrganization demo_db orgOne \<noteq> None
   \<and> protected demo_env demo_db 1000 (Some ''Bearer tok-b'') (\<lambda>u. getOrganization demo_db (au_id u) orgOne)
           = Inl (CustomError ''Organization not found or access denied'' 404)
   \<and> protected demo_env demo_db 1000 (Some ''Bearer tok-b'') (\<lambda>u. getOrganizationUsers demo_db (au_id u) orgOne)
           = Inl (CustomError ''Organization not found or access denied'' 404)
   \<and> getOrganization (demo_db\<lparr> organizations := [] \<rparr>) (au_id ctxB) orgOne
           = getOrganization demo_db (au_id ctxB) orgOne"
proof -
  have acc: "authenticateToken demo_env demo_db 1000 (Some ''Bearer tok-b'') = Inr ctxB"
    by (simp add: mw_defs demo_defs)
  have nom: "\<not> list_ex (\<lambda>m. ou_userId m = au_id ctxB \<and> ou_organizationId m = orgOne)
            (organizationUsers demo_db)"
    by (simp add: demo_defs)
  have ex: "findOrganization demo_db orgOne \<noteq> None"
    by (simp add: findOrganization_def demo_defs)
  from getOrganization_hides_foreign_organization [OF acc nom, of "[]"] acc nom ex
  show ?thesis by blast
qed

section \<open>Credentials\<close>

text \<open>
  C6. A login that passes validation fails with the same error, \<open>Invalid credentials\<close>
  with status 401, and leaves the store as it was, when no user has the email, when the
  user is deactivated, and when the password does not match.
\<close>

theorem login_failures_indistinguishable:
  assumes "loginValid E b"
    and "\<not> list_ex (\<lambda>u. user_email u = normalizeEmail E (lb_email b)) (users d)
         \<or> (\<exists>u. findUserByEmail d (normalizeEmail E (lb_email b)) = Some u
                \<and> (\<not> user_isActive u \<or> \<not> bcrypt_compare E (lb_password b) (user_password u)))"
  shows "login E d now b = (Inl (CustomError ''Invalid credentials'' 401), d)"
proof -
  from assms(2) show ?thesis
  proof
    assume "\<not> list_ex (\<lambda>u. user_email u = normalizeEmail E (lb_email b)) (users d)"
    then have "findUserByEmail d (normalizeEmail E (lb_email b)) = None"
      by (simp add: findUserByEmail_def find_None_iff list_ex_iff)
    with assms(1) show ?thesis by (simp add: login_def)
  next
    assume "\<exists>u. findUserByEmail d (normalizeEmail E (lb_email b)) = Some u
                \<and> (\<not> user_isActive u \<or> \<not> bcrypt_compare E (lb_password b) (user_password u))"
    then obtain u where "findUserByEmail d (normalizeEmail E (lb_email b)) = Some u"
      and "\<not> user_isActive u \<or> \<not> bcrypt_compare E (lb_password b) (user_password u)"
      by blast
    with assms(1) show ?thesis by (auto simp: login_def)
  qed
qed

theorem login_failures_indistinguishable_witness:
  "login demo_env demo_db 1000 \<lparr> lb_email = ''nobody@example.com'', lb_password = ''password123'' \<rparr>
     = (Inl (CustomError ''Invalid credentials'' 401), demo_db)
   \<and> login demo_env demo_db 1000 \<lparr> lb_email = ''i@example.com'', lb_password = ''password123'' \<rparr>
     = (Inl (CustomError ''Invalid credentials'' 401), demo_db)
   \<and> login demo_env demo_db 1000 \<lparr> lb_email = ''b@example.com'', lb_password = ''password124'' \<rparr>
     = (Inl (CustomError ''Invalid credentials'' 401), demo_db)
   \<and> fst (login demo_env demo_db 1000 \<lparr> lb_email = ''b@example.com'', lb_password = ''password123'' \<rparr>)
     \<noteq> Inl (CustomError ''Invalid credentials'' 401)"
proof -
  have a: "login demo_env demo_db 1000 \<lparr> lb_email = ''nobody@example.com'', lb_password = ''password123'' \<rparr>
     = (Inl (CustomError ''Invalid credentials'' 401), demo_db)"
    using login_failures_indistinguishable [of demo_env
        "\<lparr> lb_email = ''nobody@example.com'', lb_password = ''password123'' \<rparr>" demo_db 1000]
    by (simp add: loginValid_def demo_defs)
  have b: "login demo_env demo_db 1000 \<lparr> lb_email = ''i@example.com'', lb_password = ''password123'' \<rparr>
     = (Inl (CustomError ''Invalid credentials'' 401), demo_db)"
    using login_failures_indistinguishable [of demo_env
        "\<lparr> lb_email = ''i@example.com'', lb_password = ''password123'' \<rparr>" demo_db 1000]
    by (simp add: loginValid_def findUserByEmail_def demo_defs)
  have c: "login demo_env demo_db 1000 \<lparr> lb_email = ''b@example.com'', lb_password = ''password124'' \<rparr>
     = (Inl (CustomError ''Invalid credentials'' 401), demo_db)"
    using login_failures_indistinguishable [of demo_env
        "\<lparr> lb_email = ''b@example.com'', lb_password = ''password124'' \<rparr>" demo_db 1000]
    by (simp add: loginValid_def findUserByEmail_def demo_defs)
  have d: "fst (login demo_env demo_db 1000 \<lparr> lb_email = ''b@example.com'', lb_password = ''password123'' \<rparr>)
     \<noteq> Inl (CustomError ''Invalid credentials'' 401)"
    by (simp add: login_def loginValid_def findUserByEmail_def demo_defs Let_def)
  from a b c d show ?thesis by blast
qed

lemma register_success_adds_user:
  assumes "register E d now b = (Inr r, d1)"
  shows "list_ex (\<lambda>u. user_email u = normalizeEmail E (rb_email b)) (users d1)"
  using assms
  by (auto simp: register_def Let_def list_ex_iff split: if_splits option.splits)

text \<open>
  C8. After a registration that succeeded, every valid registration with the same email
  fails with status 409 and returns the store unchanged: no user row and no session row
  is added, and the rows of the first registration stay as they are.
\<close>

theorem register_twice_conflict:
  assumes "register E d now b = (Inr r, d1)"
    and "registerValid E b'" and "rb_email b' = rb_email b"
  shows "register E d1 now' b'
           = (Inl (CustomError ''User already exists with this email'' 409), d1)"
proof -
  from register_success_adds_user [OF assms(1)]
  have "findUserByEmail d1 (normalizeEmail E (rb_email b)) \<noteq> None"
    by (auto simp: findUserByEmail_def find_None_iff list_ex_iff)
  then obtain u where "findUserByEmail d1 (normalizeEmail E (rb_email b')) = Some u"
    using assms(3) by auto
  with assms(2) show ?thesis by (simp add: register_def)
qed

theorem register_twice_conflict_witness:
  "\<exists>r d1. register demo_env demo_db 1000
             \<lparr> rb_email = ''new@example.com'', rb_password = ''password123'',
               rb_firstName = ''New'', rb_lastName = ''User'', rb_company = None \<rparr> = (Inr r, d1)
        \<and> registerValid demo_env
             \<lparr> rb_email = ''new@example.com'', rb_password = ''another-password'',
               rb_firstName = ''Other'', rb_lastName = ''Name'', rb_company = None \<rparr>
        \<and> register demo_env d1 2000
             \<lparr> rb_email = ''new@example.com'', rb_password = ''another-password'',
               rb_firstName = ''Other'', rb_lastName = ''Name'', rb_company = None \<rparr>
           = (Inl (CustomError ''User already exists with this email'' 409), d1)"
proof -
  let ?b = "\<lparr> rb_email = ''new@example.com'', rb_password = ''password123'',
               rb_firstName = ''New'', rb_lastName = ''User'', rb_company = None \<rparr>"
  let ?b' = "\<lparr> rb_email = ''new@example.com'', rb_password = ''another-password'',
               rb_firstName = ''Other'', rb_lastName = ''Name'', rb_company = None \<rparr>"
  have v: "registerValid demo_env ?b" "registerValid demo_env ?b'"
    by (simp_all add: registerValid_def ascii_trim_def is_ws_def demo_env_def)
  have "findUserByEmail demo_db (normalizeEmail demo_env (rb_email ?b)) = None"
    by (simp add: findUserByEmail_def demo_defs)
  with v(1) have "\<exists>r d1. register demo_env demo_db 1000 ?b = (Inr r, d1)"
    by (simp add: register_def Let_def)
  then obtain r d1 where first: "register demo_env demo_db 1000 ?b = (Inr r, d1)"
    by blast
  have e: "rb_email ?b' = rb_email ?b" by simp
  from register_twice_conflict [OF first v(2) e, of 2000] first v(2)
  show ?thesis by blast
qed

section \<open>Alerts\<close>

lemma mark_all_read:
  "list_all (\<lambda>a. hit a \<longrightarrow> alert_isRead a)
     (map (\<lambda>a. if hit a then a\<lparr> alert_isRead := True \<rparr> else a) xs)"
  by (induction xs) simp_all

lemma mark_keeps_hits:
  assumes "\<And>a. hit (a\<lparr> alert_isRead := True \<rparr>) = hit a"
  shows "filter hit (map (\<lambda>a. if hit a then a\<lparr> alert_isRead := True \<rparr> else a) xs) = []
         \<longleftrightarrow> filter hit xs = []"
  by (induction xs) (simp_all add: assms)

lemma mark_twice:
  assumes "\<And>a. hit (a\<lparr> alert_isRead := True \<rparr>) = hit a"
  shows "map (\<lambda>a. if hit a then a\<lparr> alert_isRead := True \<rparr> else a)
           (map (\<lambda>a. if hit a then a\<lparr> alert_isRead := True \<rparr> else a) xs)
         = map (\<lambda>a. if hit a then a\<lparr> alert_isRead := True \<rparr> else a) xs"
  by (induction xs) (simp_all add: assms)

lemma markAlertRead_eq:
  "markAlertRead d U A =
     (if filter (\<lambda>a. alert_id a = A \<and> alert_userId a = au_id U) (alerts d) = []
      then Inl (PlainError ''Alert not found'') else Inr ''Alert marked as read'',
      d\<lparr> alerts := map (\<lambda>a. if alert_id a = A \<and> alert_userId a = au_id U
                              then a\<lparr> alert_isRead := True \<rparr> else a) (alerts d) \<rparr>)"
  by (simp add: markAlertRead_def Let_def)

lemma markAlertRead_first:
  assumes "filter (\<lambda>a. alert_id a = A \<and> alert_userId a = au_id U) (alerts d) \<noteq> []"
  shows "markAlertRead d U A = (Inr ''Alert marked as read'', snd (markAlertRead d U A))"
  using assms by (simp add: markAlertRead_eq)

lemma markAlertRead_second:
  assumes "filter (\<lambda>a. alert_id a = A \<and> alert_userId a = au_id U) (alerts d) \<noteq> []"
  shows "markAlertRead (snd (markAlertRead d U A)) U A
           = (Inr ''Alert marked as read'', snd (markAlertRead d U A))"
  using assms by (simp add: markAlertRead_eq mark_keeps_hits mark_twice)

lemma markAlertRead_still_there:
  assumes "filter (\<lambda>a. alert_id a = A \<and> alert_userId a = au_id U) (alerts d) \<noteq> []"
  shows "filter (\<lambda>a. alert_id a = A \<and> alert_userId a = au_id U)
           (alerts (snd (markAlertRead d U A))) \<noteq> []"
  using assms by (simp add: markAlertRead_eq mark_keeps_hits)

lemma markAlertRead_flag:
  "list_all (\<lambda>a. alert_id a = A \<and> alert_userId a = au_id U \<longrightarrow> alert_isRead a)
     (alerts (snd (markAlertRead d U A)))"
  unfolding markAlertRead_eq snd_conv
  using mark_all_read [of "\<lambda>a. alert_id a = A \<and> alert_userId a = au_id U" "alerts d"]
  by simp

lemma list_ex_filter: "list_ex P xs \<longleftrightarrow> filter P xs \<noteq> []"
  by (induction xs) simp_all

text \<open>
  C9. Marking an alert read is idempotent: when the user owns an alert of that id, the
  first call succeeds, the second call succeeds as well and returns the store of the
  first, and in that store every alert of that id and user is read.
\<close>

theorem markAlertRead_idempotent:
  assumes "list_ex (\<lambda>a. alert_id a = A \<and> alert_userId a = au_id U) (alerts d)"
  shows "\<exists>d1. markAlertRead d U A = (Inr ''Alert marked as read'', d1)
            \<and> markAlertRead d1 U A = (Inr ''Alert marked as read'', d1)
            \<and> list_ex (\<lambda>a. alert_id a = A \<and> alert_userId a = au_id U) (alerts d1)
            \<and> list_all (\<lambda>a. alert_id a = A \<and> alert_userId a = au_id U \<longrightarrow> alert_isRead a)
                 (alerts d1)"
proof -
  from assms have ne: "filter (\<lambda>a. alert_id a = A \<and> alert_userId a = au_id U) (alerts d) \<noteq> []"
    unfolding list_ex_filter .
  from markAlertRead_still_there [OF ne]
  have 3: "list_ex (\<lambda>a. alert_id a = A \<and> alert_userId a = au_id U)
             (alerts (snd (markAlertRead d U A)))"
    unfolding list_ex_filter .
  from markAlertRead_first [OF ne] markAlertRead_second [OF ne] 3 markAlertRead_flag [of A U d]
  show ?thesis by blast
qed

theorem markAlertRead_idempotent_witness:
  "list_ex (\<lambda>a. alert_id a = ''al1'' \<and> alert_userId a = au_id ctxB) (alerts demo_db)
   \<and> fst (markAlertRead demo_db ctxB ''al1'') = Inr ''Alert marked as read''
   \<and> markAlertRead (snd (markAlertRead demo_db ctxB ''al1'')) ctxB ''al1''
       = (Inr ''Alert marked as read'', snd (markAlertRead demo_db ctxB ''al1''))
   \<and> list_all alert_isRead (alerts (snd (markAlertRead demo_db ctxB ''al1'')))"
proof -
  have own: "list_ex (\<lambda>a. alert_id a = ''al1'' \<and> alert_userId a = au_id ctxB) (alerts demo_db)"
    by (simp add: demo_defs)
  from markAlertRead_idempotent [OF own]
  obtain d1 where 1: "markAlertRead demo_db ctxB ''al1'' = (Inr ''Alert marked as read'', d1)"
    and 2: "markAlertRead d1 ctxB ''al1'' = (Inr ''Alert marked as read'', d1)"
    by blast
  have 3: "list_all alert_isRead (alerts (snd (markAlertRead demo_db ctxB ''al1'')))"
    by (simp add: markAlertRead_eq demo_defs)
  from own 1 2 3 show ?thesis by simp
qed

section \<open>Tenant scoping of the supplier routes\<close>

text \<open>
  The sibling paths: the zone list, and the supplier list when the query carries no
  organization id, return rows of an organization of the caller only.
\<close>

lemma find_Some_in: "find P xs = Some x \<Longrightarrow> x \<in> set xs \<and> P x"
  by (induction xs) (simp_all split: if_splits)

lemma getZones_scoped:
  assumes "z \<in> set (getZones d u)"
  shows "list_ex (\<lambda>m. ou_userId m = au_id u \<and> ou_organizationId m = zone_organizationId z)
           (organizationUsers d)"
proof -
  from assms obtain m where m: "findFirstOrgUser d (au_id u) = Some m"
    by (cases "findFirstOrgUser d (au_id u)") (simp_all add: getZones_def)
  from find_Some_in [OF m [unfolded findFirstOrgUser_def]]
  have mem: "m \<in> set (organizationUsers d)" "ou_userId m = au_id u" by blast+
  have "getZones d u = rev (sort_key zone_createdAt
                 (filter (\<lambda>z. zone_organizationId z = ou_organizationId m)
                    (monitoringZones d)))"
    unfolding getZones_def m by simp
  with assms have "z \<in> set (filter (\<lambda>z. zone_organizationId z = ou_organizationId m)
                    (monitoringZones d))"
    by (simp only: set_rev set_sort)
  then have "ou_organizationId m = zone_organizationId z"
    by (simp only: set_filter mem_Collect_eq)
  with mem show ?thesis unfolding list_ex_iff by blast
qed

lemma getSuppliers_no_membership:
  assumes "getSuppliers d u q = Inr r" "findFirstOrgUser d (au_id u) = None"
  shows "sp_suppliers r = []"
  using assms by (simp add: getSuppliers_def Let_def) (cases r, simp)

lemma getSuppliers_rows:
  assumes "sq_organizationId q = None" and "getSuppliers d u q = Inr r"
    and "findFirstOrgUser d (au_id u) = Some m"
  shows "sp_suppliers r = take (case sq_limit q of None \<Rightarrow> 10 | Some l \<Rightarrow> l)
     (drop (((case sq_page q of None \<Rightarrow> 1 | Some p \<Rightarrow> p) - 1) * (case sq_limit q of None \<Rightarrow> 10 | Some l \<Rightarrow> l))
      (rev (sort_key supplier_createdAt
       (filter (\<lambda>s. supplier_organizationId s = ou_organizationId m) (suppliers d)))))"
proof -
  have "getSuppliers d u q = Inl (PlainError ''Invalid value for skip'') \<or>
     sp_suppliers (projr (getSuppliers d u q)) = take (case sq_limit q of None \<Rightarrow> 10 | Some l \<Rightarrow> l)
     (drop (((case sq_page q of None \<Rightarrow> 1 | Some p \<Rightarrow> p) - 1) * (case sq_limit q of None \<Rightarrow> 10 | Some l \<Rightarrow> l))
      (rev (sort_key supplier_createdAt
       (filter (\<lambda>s. supplier_organizationId s = ou_organizationId m) (suppliers d)))))"
    unfolding getSuppliers_def Let_def assms(1) assms(3) by simp
  with assms(2) show ?thesis by auto
qed

lemma getSuppliers_scoped_without_query_id:
  assumes "sq_organizationId q = None" and "getSuppliers d u q = Inr r"
    and "s \<in> set (sp_suppliers r)"
  shows "list_ex (\<lambda>m. ou_userId m = au_id u \<and> ou_organizationId m = supplier_organizationId s)
           (organizationUsers d)"
proof (cases "findFirstOrgUser d (au_id u)")
  case None
  from getSuppliers_no_membership [OF assms(2) None] assms(3) show ?thesis by simp
next
  case (Some m)
  from find_Some_in [OF Some [unfolded findFirstOrgUser_def]]
  have mem: "m \<in> set (organizationUsers d)" "ou_userId m = au_id u" by blast+
  from assms(3) getSuppliers_rows [OF assms(1,2) Some]
  have "s \<in> set (rev (sort_key supplier_createdAt
       (filter (\<lambda>s. supplier_organizationId s = ou_organizationId m) (suppliers d))))"
    by (metis in_set_takeD in_set_dropD)
  then have "s \<in> set (filter (\<lambda>s. supplier_organizationId s = ou_organizationId m) (suppliers d))"
    by (simp only: set_rev set_sort)
  then have "ou_organizationId m = supplier_organizationId s"
    by (simp only: set_filter mem_Collect_eq)
  with mem show ?thesis unfolding list_ex_iff by blast
qed

text \<open>
  C1. Reads and writes of suppliers are to be confined to the organizations of the caller.
  The supplier routes do not keep to it: \<open>b\<close> has no membership in the first organization,
  and yet \<open>GET /suppliers?organizationId=...\<close> with the id of the first organization returns
  its supplier, and \<open>POST /suppliers\<close> creates a supplier in it.
\<close>

theorem suppliers_ignore_membership:
  "findOrgUser demo_db ''b'' orgOne = None
   \<and> authenticateToken demo_env demo_db 1000 (Some ''Bearer tok-b'') = Inr ctxB
   \<and> protected demo_env demo_db 1000 (Some ''Bearer tok-b'')
       (\<lambda>u. getSuppliers demo_db u
              \<lparr> sq_organizationId = Some orgOne, sq_page = None, sq_limit = None \<rparr>)
     = Inr \<lparr> sp_suppliers =
               [\<lparr> supplier_id = ''s1'', supplier_name = ''Tropical Timber Co.'',
                  supplier_country = ''Brazil'', supplier_industry = None,
                  supplier_organizationId = orgOne, supplier_createdAt = 10 \<rparr>],
             sp_pagination = \<lparr> pg_page = 1, pg_limit = 10, pg_total = 1, pg_pages = Some 1 \<rparr> \<rparr>
   \<and> fst (createSupplier demo_env demo_db 1000 ctxB
            \<lparr> cs_name = ''Shadow'', cs_country = ''Nowhere'', cs_industry = None,
              cs_organizationId = orgOne \<rparr>)
     = Inr \<lparr> supplier_id = ''row-xxxxxx'', supplier_name = ''Shadow'',
             supplier_country = ''Nowhere'', supplier_industry = None,
             supplier_organizationId = orgOne, supplier_createdAt = 1000 \<rparr>"
  by (simp add: mw_defs getSuppliers_def findFirstOrgUser_def findOrgUser_def createSupplier_def
        findOrganization_def ascii_trim_def is_ws_def Let_def demo_defs)

section \<open>Roles\<close>

text \<open>
  C5. Mutations by a viewer of an organization are to fail with 403, while reads by that
  user succeed. The organization routes keep to it, and the reads succeed; \<open>POST /suppliers\<close>
  does not: it makes no authorization decision and creates the supplier for the viewer
  \<open>v\<close> of the first organization, to whom the update of the organization is refused.
\<close>

theorem viewer_creates_supplier:
  "findOrgUser demo_db ''v'' orgOne
     = Some \<lparr> ou_userId = ''v'', ou_organizationId = orgOne, ou_role = ''VIEWER'' \<rparr>
   \<and> authenticateToken demo_env demo_db 1000 (Some ''Bearer tok-v'') = Inr ctxV
   \<and> fst (createSupplier demo_env demo_db 1000 ctxV
            \<lparr> cs_name = ''Shadow'', cs_country = ''Nowhere'', cs_industry = None,
              cs_organizationId = orgOne \<rparr>)
     = Inr \<lparr> supplier_id = ''row-xxxxxx'', supplier_name = ''Shadow'',
             supplier_country = ''Nowhere'', supplier_industry = None,
             supplier_organizationId = orgOne, supplier_createdAt = 1000 \<rparr>
   \<and> fst (updateOrganization demo_env demo_db ''v'' orgOne
            \<lparr> uo_name = Some ''Renamed'', uo_description = None, uo_industry = None \<rparr>)
     = Inl (CustomError ''Insufficient permissions'' 403)
   \<and> getSuppliers demo_db ctxV
        \<lparr> sq_organizationId = None, sq_page = None, sq_limit = None \<rparr>
     = Inr \<lparr> sp_suppliers =
               [\<lparr> supplier_id = ''s1'', supplier_name = ''Tropical Timber Co.'',
                  supplier_country = ''Brazil'', supplier_industry = None,
                  supplier_organizationId = orgOne, supplier_createdAt = 10 \<rparr>],
             sp_pagination = \<lparr> pg_page = 1, pg_limit = 10, pg_total = 1, pg_pages = Some 1 \<rparr> \<rparr>"
  by (simp add: mw_defs findOrgUser_def createSupplier_def updateOrganization_def
        getSuppliers_def findFirstOrgUser_def
        findOrganization_def ascii_trim_def is_ws_def Let_def demo_defs)

lemma getOrganization_member:
  assumes "findOrgUser d uid oid = Some m" and "findOrganization d oid = Some g"
  shows "\<exists>r. getOrganization d uid oid = Inr r \<and> od_organization r = g
             \<and> od_userRole r = ou_role m"
proof -
  from find_Some_in [OF assms(1) [unfolded findOrgUser_def]]
  have "ou_organizationId m = oid" by blast
  with assms show ?thesis by (simp add: getOrganization_def)
qed

lemma getOrganizationUsers_member:
  assumes "findOrgUser d uid oid = Some m"
  shows "\<exists>us. getOrganizationUsers d uid oid = Inr us"
  using assms by (simp add: getOrganizationUsers_def)

text \<open>
  The sibling paths: for a user whose membership role in an organization is neither owner
  nor admin, a valid update of the organization and a valid addition of a member both
  fail with 403 and leave the store unchanged, while the two reads of the organization
  succeed.
\<close>

lemma organization_writes_need_owner_or_admin:
  assumes "findOrgUser d uid oid = Some m"
    and "ou_role m \<noteq> ''OWNER''" and "ou_role m \<noteq> ''ADMIN''"
    and "findOrganization d oid = Some g"
    and "uo_name b = None \<or> (\<exists>n. uo_name b = Some n \<and> 1 \<le> length (trim E n))"
    and "isEmail E (aub_email b')" and "aub_role b' = ''MEMBER'' \<or> aub_role b' = ''VIEWER''"
  shows "updateOrganization E d uid oid b
           = (Inl (CustomError ''Insufficient permissions'' 403), d)
       \<and> addOrganizationUser E d uid oid b'
           = (Inl (CustomError ''Insufficient permissions'' 403), d)
       \<and> (\<exists>r. getOrganization d uid oid = Inr r \<and> od_organization r = g
                \<and> od_userRole r = ou_role m)
       \<and> (\<exists>us. getOrganizationUsers d uid oid = Inr us)"
proof -
  from assms(5) have v: "(case uo_name b of None \<Rightarrow> True | Some n \<Rightarrow> 1 \<le> length (trim E n))"
    by (auto split: option.splits)
  from assms(1-3) v
  have 1: "updateOrganization E d uid oid b
           = (Inl (CustomError ''Insufficient permissions'' 403), d)"
    by (simp add: updateOrganization_def)
  from assms(6,7) have v': "isEmail E (aub_email b') \<and> aub_role b' \<in> set [''MEMBER'', ''VIEWER'']"
    by auto
  from assms(1-3) v'
  have 2: "addOrganizationUser E d uid oid b'
           = (Inl (CustomError ''Insufficient permissions'' 403), d)"
    by (simp add: addOrganizationUser_def)
  from 1 2 getOrganization_member [OF assms(1,4)] getOrganizationUsers_member [OF assms(1)]
  show ?thesis by blast
qed

lemma organization_writes_need_owner_or_admin_sample:
  "findOrgUser demo_db ''v'' orgOne
     = Some \<lparr> ou_userId = ''v'', ou_organizationId = orgOne, ou_role = ''VIEWER'' \<rparr>
   \<and> updateOrganization demo_env demo_db ''v'' orgOne
        \<lparr> uo_name = Some ''Renamed'', uo_description = None, uo_industry = None \<rparr>
       = (Inl (CustomError ''Insufficient permissions'' 403), demo_db)
   \<and> addOrganizationUser demo_env demo_db ''v'' orgOne
        \<lparr> aub_email = ''b@example.com'', aub_role = ''MEMBER'' \<rparr>
       = (Inl (CustomError ''Insufficient permissions'' 403), demo_db)
   \<and> (\<exists>r. getOrganization demo_db ''v'' orgOne = Inr r \<and> od_userRole r = ''VIEWER'')
   \<and> (\<exists>us. getOrganizationUsers demo_db ''v'' orgOne = Inr us)"
proof -
  let ?m = "\<lparr> ou_userId = ''v'', ou_organizationId = orgOne, ou_role = ''VIEWER'' \<rparr>"
  let ?g = "\<lparr> org_id = orgOne, org_name = ''One'', org_description = None, org_industry = None \<rparr>"
  let ?b = "\<lparr> uo_name = Some ''Renamed'', uo_description = None, uo_industry = None \<rparr>"
  let ?b' = "\<lparr> aub_email = ''b@example.com'', aub_role = ''MEMBER'' \<rparr>"
  have m: "findOrgUser demo_db ''v'' orgOne = Some ?m"
    by (simp add: findOrgUser_def demo_defs)
  have r: "ou_role ?m \<noteq> ''OWNER''" "ou_role ?m \<noteq> ''ADMIN''"
    by simp_all
  have g: "findOrganization demo_db orgOne = Some ?g"
    by (simp add: findOrganization_def demo_defs)
  have n: "uo_name ?b = None \<or> (\<exists>n. uo_name ?b = Some n \<and> 1 \<le> length (trim demo_env n))"
    by (simp add: demo_env_def ascii_trim_def is_ws_def)
  have e: "isEmail demo_env (aub_email ?b')"
    by (simp add: demo_env_def)
  have k: "aub_role ?b' = ''MEMBER'' \<or> aub_role ?b' = ''VIEWER''"
    by simp
  from organization_writes_need_owner_or_admin [OF m r g n e k] m
  show ?thesis by auto
qed

end
